theory Spec2Isabelle
  imports Complex_Main "HOL-Library.Sublist" "HOL-Library.List_Lexorder" "HOL-Library.Char_ord"
begin

section \<open>The Bayesian hierarchical goal model of penaltyblog\<close>

text \<open>
  A shallow embedding of \<^verbatim>\<open>penaltyblog/models/bayesian_hierarchical.py\<close>, class
  \<^verbatim>\<open>BayesianHierarchicalGoalModel\<close>.

  Conventions of the embedding:
  \<^item> Python and numpy floating-point numbers are real numbers: rounding, overflow and
    NaN are not represented.
  \<^item> A raised exception is the \<open>Inl\<close> branch of a sum (or \<open>Some e\<close> beside the state that
    the exception leaves behind, for \<^verbatim>\<open>fit\<close>, which mutates the object before it can raise).
  \<^item> The dictionary \<^verbatim>\<open>self.params\<close> is an object of its own: the model holds its
    address, and the dictionaries live in a store, because \<^verbatim>\<open>get_params\<close> hands
    that object out.
  \<^item> The inference engine (the body of \<^verbatim>\<open>with pm.Model(): ...\<close> up to
    \<^verbatim>\<open>pm.sample\<close>) is a parameter: a function that raises or returns a trace.
\<close>

subsection \<open>Errors\<close>

datatype error =
    ValueError string      \<comment> \<open>\<^verbatim>\<open>raise ValueError(msg)\<close> of the class itself\<close>
  | FrameCastError         \<comment> \<open>\<^verbatim>\<open>astype(int)\<close> on a missing cell or on NaN\<close>
  | OverflowError          \<comment> \<open>\<^verbatim>\<open>astype(int)\<close> on an infinity or outside the 64-bit integers\<close>
  | FrameLengthError       \<comment> \<open>a column assigned from a list of the wrong length\<close>
  | FrameIndexError        \<comment> \<open>a column assigned from a \<^verbatim>\<open>Series\<close> with duplicate labels\<close>
  | TypeError              \<comment> \<open>\<^verbatim>\<open>str + None\<close>\<close>
  | KeyError string        \<comment> \<open>a dictionary read of an absent key\<close>
  | IndexError             \<comment> \<open>\<^verbatim>\<open>x[idx]\<close> out of range\<close>
  | SamplingError string   \<comment> \<open>whatever \<^verbatim>\<open>pm.sample\<close> raises\<close>

text \<open>Sequencing: the first exception ends the computation.\<close>

fun and_then :: "error + 'a \<Rightarrow> ('a \<Rightarrow> error + 'b) \<Rightarrow> error + 'b" where
  "and_then (Inl e) f = Inl e"
| "and_then (Inr x) f = f x"

subsection \<open>The store of dictionaries\<close>

type_synonym pdict = "string \<rightharpoonup> real"

record heap =
  cells :: "nat \<Rightarrow> pdict"
  next_addr :: nat

definition empty_heap :: heap where
  "empty_heap = \<lparr>cells = (\<lambda>_. Map.empty), next_addr = 0\<rparr>"

text \<open>\<^verbatim>\<open>dict()\<close>: a fresh, empty dictionary object.\<close>

definition new_dict :: "heap \<Rightarrow> nat \<times> heap" where
  "new_dict h =
     (next_addr h,
      h\<lparr>cells := (cells h)(next_addr h := Map.empty), next_addr := Suc (next_addr h)\<rparr>)"

text \<open>\<^verbatim>\<open>d[k] = v\<close> on the dictionary object at address \<open>a\<close>, and the read \<^verbatim>\<open>d[k]\<close>.\<close>

definition dict_setitem :: "heap \<Rightarrow> nat \<Rightarrow> string \<Rightarrow> real \<Rightarrow> heap" where
  "dict_setitem h a k v = h\<lparr>cells := (cells h)(a := (cells h a)(k \<mapsto> v))\<rparr>"

definition dict_getitem :: "pdict \<Rightarrow> string \<Rightarrow> error + real" where
  "dict_getitem d k = (case d k of None \<Rightarrow> Inl (KeyError k) | Some v \<Rightarrow> Inr v)"

subsection \<open>The fixture frame\<close>

text \<open>
  \<^verbatim>\<open>pd.DataFrame([goals_home, goals_away, teams_home, teams_away]).T\<close>: the four sequences
  become the four columns; the frame has as many rows as the longest sequence, and a shorter
  sequence is filled up with missing cells (\<open>None\<close> here).
\<close>

definition pad :: "nat \<Rightarrow> 'a list \<Rightarrow> 'a option list" where
  "pad n xs = map Some xs @ replicate (n - length xs) None"

text \<open>
  A goal count as the caller may pass it: a Python \<^verbatim>\<open>int\<close> or a finite
  \<^verbatim>\<open>float\<close> (both a real number here), or one of the floats NaN, \<open>+inf\<close>, \<open>-inf\<close>.
\<close>

datatype pynumber = Num real | NaN | PosInf | NegInf

text \<open>Python's \<^verbatim>\<open>int(x)\<close> on a number: truncation toward zero.\<close>

definition py_int :: "real \<Rightarrow> int" where
  "py_int x = (if 0 \<le> x then \<lfloor>x\<rfloor> else \<lceil>x\<rceil>)"

text \<open>
  \<^verbatim>\<open>astype(int)\<close> on a column of objects converts cell by cell, in order, to a 64-bit
  integer (the C \<^verbatim>\<open>long\<close> of the platform): a missing cell and NaN cannot be converted,
  an infinity and a number whose truncation is outside the 64-bit range overflow.
\<close>

definition in_int64 :: "int \<Rightarrow> bool" where
  "in_int64 i \<longleftrightarrow> - (2 ^ 63) \<le> i \<and> i < 2 ^ 63"

fun cast_cell :: "pynumber option \<Rightarrow> error + int" where
  "cast_cell None = Inl FrameCastError"
| "cast_cell (Some NaN) = Inl FrameCastError"
| "cast_cell (Some PosInf) = Inl OverflowError"
| "cast_cell (Some NegInf) = Inl OverflowError"
| "cast_cell (Some (Num x)) =
     (if in_int64 (py_int x) then Inr (py_int x) else Inl OverflowError)"

fun astype_int :: "pynumber option list \<Rightarrow> error + int list" where
  "astype_int [] = Inr []"
| "astype_int (c # col) =
     and_then (cast_cell c) (\<lambda>i. and_then (astype_int col) (\<lambda>ys. Inr (i # ys)))"

text \<open>
  The weights as the caller may pass them: a scalar, a list (or array), or a
  \<^verbatim>\<open>pd.Series\<close>, which is a list of values each with its index label.
\<close>

datatype weights_arg = Scalar real | Seq "real list" | Series "(int \<times> real) list"

text \<open>
  \<^verbatim>\<open>self.fixtures["weights"] = weights\<close> on a frame of \<open>n\<close> rows labelled \<open>0, \<dots>, n - 1\<close>;
  the result is the number of rows of the frame afterwards and the new column.
  \<^item> A scalar fills the column.
  \<^item> A list must have \<open>n\<close> entries.
  \<^item> A \<^verbatim>\<open>Series\<close> with exactly the labels of the frame gives its values; otherwise it is
    aligned on its labels, which must be distinct: row \<open>i\<close> gets the value labelled \<open>i\<close>, or
    a missing weight when there is none. Its length is never an error.
  \<^item> A frame without rows takes its rows from a list or \<^verbatim>\<open>Series\<close> that is not empty:
    it gets as many rows as there are values, the cells of the other columns missing.
\<close>

fun set_weights :: "nat \<Rightarrow> weights_arg \<Rightarrow> error + (nat \<times> real option list)" where
  "set_weights n (Scalar c) = Inr (n, replicate n (Some c))"
| "set_weights n (Seq ws) =
     (if n = 0 \<and> ws \<noteq> [] then Inr (length ws, map Some ws)
      else if length ws = n then Inr (n, map Some ws)
      else Inl FrameLengthError)"
| "set_weights n (Series lv) =
     (if n = 0 \<and> lv \<noteq> [] then Inr (length lv, map (\<lambda>p. Some (snd p)) lv)
      else if map fst lv = map int [0..<n] then Inr (n, map (\<lambda>p. Some (snd p)) lv)
      else if \<not> distinct (map fst lv) then Inl FrameIndexError
      else Inr (n, map (\<lambda>i. map_of lv (int i)) [0..<n]))"

text \<open>
  \<^verbatim>\<open>self.teams\<close>: the distinct values of the column \<^verbatim>\<open>team_home\<close>, sorted, a missing
  value last; \<^verbatim>\<open>team_index\<close> is the position in this list.
\<close>

definition team_table :: "string option list \<Rightarrow> string option list" where
  "team_table col =
     map Some (sort (remdups [t. Some t \<leftarrow> col])) @ (if None \<in> set col then [None] else [])"

text \<open>The left merge on the team name: the index of the team, missing when there is none.\<close>

fun index_of :: "'a list \<Rightarrow> 'a \<Rightarrow> nat option" where
  "index_of [] x = None"
| "index_of (y # ys) x = (if x = y then Some 0 else map_option Suc (index_of ys x))"

text \<open>A row of the frame; a cell of the goal, team and weight columns may be missing.\<close>

record fixture =
  goals_home :: "int option"
  goals_away :: "int option"
  team_home :: "string option"
  team_away :: "string option"
  weights :: "real option"
  home_index :: "nat option"
  away_index :: "nat option"

fun make_fixtures ::
  "string option list \<Rightarrow> int option list \<Rightarrow> int option list \<Rightarrow> string option list \<Rightarrow>
   string option list \<Rightarrow> real option list \<Rightarrow> fixture list" where
  "make_fixtures tbl (gh # ghs) (ga # gas) (th # ths) (ta # tas) (w # ws) =
     \<lparr>goals_home = gh, goals_away = ga, team_home = th, team_away = ta, weights = w,
      home_index = index_of tbl th, away_index = index_of tbl ta\<rparr>
     # make_fixtures tbl ghs gas ths tas ws"
| "make_fixtures tbl _ _ _ _ _ = []"

subsection \<open>The trace of the sampler\<close>

record trace =
  tr_home :: "real list"
  tr_intercept :: "real list"
  tr_atts_star :: "real list list"
  tr_def_star :: "real list list"

text \<open>
  \<^verbatim>\<open>np.mean\<close>; on an empty sequence numpy gives NaN, which the reals do not have: the
  theorems below that speak of a mean assume the sequence is not empty.
\<close>

definition np_mean :: "real list \<Rightarrow> real" where
  "np_mean xs = sum_list xs / real (length xs)"

text \<open>
  The sum-zero constraint, \<^verbatim>\<open>pm.Deterministic("atts", atts_star - tt.mean(atts_star))\<close>:
  the trace holds, for every draw, the centred vector.
\<close>

definition center :: "real list \<Rightarrow> real list" where
  "center x = map (\<lambda>v. v - np_mean x) x"

definition trace_atts :: "trace \<Rightarrow> real list list" where
  "trace_atts tr = map center (tr_atts_star tr)"

definition trace_defs :: "trace \<Rightarrow> real list list" where
  "trace_defs tr = map center (tr_def_star tr)"

type_synonym sampler = "fixture list \<Rightarrow> nat \<Rightarrow> int \<Rightarrow> int option \<Rightarrow> error + trace"

subsection \<open>The model object\<close>

record model =
  fixtures :: "fixture list"
  n_teams :: nat
  teams :: "string option list"
  trace :: "trace option"
  draws :: int
  params :: nat
  n_jobs :: "int option"
  fitted :: bool

text \<open>
  \<^verbatim>\<open>__init__\<close>. \<open>cpu\<close> is what \<^verbatim>\<open>os.cpu_count()\<close> returns on the machine (it may be
  \<^verbatim>\<open>None\<close>). The four sequences are positional (lists, or \<^verbatim>\<open>Series\<close> with the
  default labels). The weights are assigned twice, before and after
  \<^verbatim>\<open>reset_index\<close>, which relabels the rows \<open>0, \<dots>, n - 1\<close>.
\<close>

definition init ::
  "int option \<Rightarrow> heap \<Rightarrow> pynumber list \<Rightarrow> pynumber list \<Rightarrow> string list \<Rightarrow> string list \<Rightarrow>
   weights_arg \<Rightarrow> int option \<Rightarrow> int \<Rightarrow> error + (heap \<times> model)" where
  "init cpu h gh ga th ta w jobs d =
     (let n = max (max (length gh) (length ga)) (max (length th) (length ta)) in
      and_then (astype_int (pad n gh)) (\<lambda>ghi.
      and_then (astype_int (pad n ga)) (\<lambda>gai.
      and_then (set_weights n w) (\<lambda>(n1, ws1).
      and_then (set_weights n1 w) (\<lambda>(n2, ws).
        let thc = pad n2 th; tac = pad n2 ta;
            nt = length (remdups thc);
            tbl = team_table thc;
            (a, h') = new_dict h
        in Inr (h',
             \<lparr>fixtures = make_fixtures tbl (pad n2 ghi) (pad n2 gai) thc tac ws,
              n_teams = nt,
              teams = tbl,
              trace = None,
              draws = d,
              params = a,
              n_jobs = (if jobs = Some (- 1) \<or> jobs = None then cpu
                        else if jobs = Some 0 then Some 1 else jobs),
              fitted = False\<rparr>))))))"

subsection \<open>\<^verbatim>\<open>fit\<close>\<close>

text \<open>\<^verbatim>\<open>[x[idx] for x in xs]\<close>.\<close>

fun column :: "nat \<Rightarrow> real list list \<Rightarrow> error + real list" where
  "column idx [] = Inr []"
| "column idx (x # xs) =
     (if idx < length x then and_then (column idx xs) (\<lambda>ys. Inr (x ! idx # ys))
      else Inl IndexError)"

text \<open>\<^verbatim>\<open>prefix + row["team"]\<close>, where the team cell may be missing.\<close>

fun str_concat :: "string \<Rightarrow> string option \<Rightarrow> error + string" where
  "str_concat p (Some t) = Inr (p @ t)"
| "str_concat p None = Inl TypeError"

text \<open>
  The loop \<^verbatim>\<open>for idx, row in self.teams.iterrows()\<close> over the dictionary. In an
  assignment \<^verbatim>\<open>d[key] = value\<close> Python evaluates the value before the key. An exception
  leaves the entries written so far.
\<close>

fun fit_teams :: "trace \<Rightarrow> (nat \<times> string option) list \<Rightarrow> pdict \<Rightarrow> error option \<times> pdict" where
  "fit_teams tr [] d = (None, d)"
| "fit_teams tr ((idx, team) # rows) d =
     (case and_then (column idx (trace_atts tr)) (\<lambda>xs.
           and_then (str_concat ''attack_'' team) (\<lambda>ka. Inr (d(ka \<mapsto> np_mean xs)))) of
        Inl e \<Rightarrow> (Some e, d)
      | Inr d1 \<Rightarrow>
          (case and_then (column idx (trace_defs tr)) (\<lambda>ys.
                and_then (str_concat ''defence_'' team) (\<lambda>kd. Inr (d1(kd \<mapsto> np_mean ys)))) of
             Inl e \<Rightarrow> (Some e, d1)
           | Inr d2 \<Rightarrow> fit_teams tr rows d2))"

text \<open>
  \<^verbatim>\<open>fit\<close> returns the exception, if any, beside the store and the object as the call
  leaves them.
\<close>

definition fit :: "sampler \<Rightarrow> heap \<Rightarrow> model \<Rightarrow> error option \<times> heap \<times> model" where
  "fit sample h m =
     (case sample (fixtures m) (n_teams m) (draws m) (n_jobs m) of
        Inl e \<Rightarrow> (Some e, h, m)
      | Inr tr \<Rightarrow>
          (let m1 = m\<lparr>trace := Some tr\<rparr>;
               d0 = cells h (params m);
               d1 = d0(''home'' \<mapsto> np_mean (tr_home tr));
               d2 = d1(''intercept'' \<mapsto> np_mean (tr_intercept tr));
               (r, d3) = fit_teams tr (enumerate 0 (teams m)) d2;
               h1 = h\<lparr>cells := (cells h)(params m := d3)\<rparr>
           in (case r of Some e \<Rightarrow> (Some e, h1, m1)
               | None \<Rightarrow> (None, h1, m1\<lparr>fitted := True\<rparr>))))"

subsection \<open>\<^verbatim>\<open>predict\<close> and \<^verbatim>\<open>get_params\<close>\<close>

text \<open>
  Modelled from the spec: \<^verbatim>\<open>FootballProbabilityGrid\<close> (its module is not among the
  sources) carries the matrix and the two rates that built it.
\<close>

record FootballProbabilityGrid =
  grid :: "real list list"
  home_goal_expectation :: real
  away_goal_expectation :: real

text \<open>\<^verbatim>\<open>np.arange(0, max_goals)\<close>: empty when \<^verbatim>\<open>max_goals\<close> is not positive.\<close>

definition np_arange :: "int \<Rightarrow> nat list" where
  "np_arange max_goals = [0..<nat max_goals]"

text \<open>
  \<^verbatim>\<open>poisson(mu).pmf(k)\<close>: the exact value of the Poisson mass; the library returns its
  rounding to a double, which this embedding does not represent.
\<close>

definition poisson_pmf :: "real \<Rightarrow> nat \<Rightarrow> real" where
  "poisson_pmf mu k = exp (- mu) * mu ^ k / fact k"

definition np_outer :: "real list \<Rightarrow> real list \<Rightarrow> real list list" where
  "np_outer a b = map (\<lambda>x. map (\<lambda>y. x * y) b) a"

definition msg_predict_unfitted :: string where
  "msg_predict_unfitted =
     ''Model'' @ [CHR 0x27] @ ''s parameters have not been fit yet, please call the `fit()` '' @
     ''function before making any predictions''"

definition msg_home :: string where
  "msg_home =
     ''No parameters for home team - '' @
     ''please ensure the team was included in the training data''"

definition msg_away :: string where
  "msg_away =
     ''No parameters for away team - '' @
     ''please ensure the team was included in the training data''"

definition msg_params_unfitted :: string where
  "msg_params_unfitted =
     ''Model'' @ [CHR 0x27] @
     ''s parameters have not been fit yet, please call the `fit()` function first''"

definition predict ::
  "heap \<Rightarrow> model \<Rightarrow> string \<Rightarrow> string \<Rightarrow> int \<Rightarrow> error + FootballProbabilityGrid" where
  "predict h m home_team away_team max_goals =
     (if \<not> fitted m then Inl (ValueError msg_predict_unfitted)
      else if Some home_team \<notin> set (teams m) then Inl (ValueError msg_home)
      else if Some away_team \<notin> set (teams m) then Inl (ValueError msg_away)
      else
        (let p = cells h (params m) in
         and_then (dict_getitem p ''home'') (\<lambda>home.
         and_then (dict_getitem p ''intercept'') (\<lambda>intercept.
         and_then (dict_getitem p (''attack_'' @ home_team)) (\<lambda>atts_home.
         and_then (dict_getitem p (''attack_'' @ away_team)) (\<lambda>atts_away.
         and_then (dict_getitem p (''defence_'' @ home_team)) (\<lambda>defs_home.
         and_then (dict_getitem p (''defence_'' @ away_team)) (\<lambda>defs_away.
           let home_goals = exp (intercept + home + atts_home + defs_away);
               away_goals = exp (intercept + atts_away + defs_home);
               home_goals_vector = map (poisson_pmf home_goals) (np_arange max_goals);
               away_goals_vector = map (poisson_pmf away_goals) (np_arange max_goals);
               m = np_outer home_goals_vector away_goals_vector
           in Inr \<lparr>grid = m, home_goal_expectation = home_goals,
                   away_goal_expectation = away_goals\<rparr>))))))))"

text \<open>\<^verbatim>\<open>get_params\<close> returns \<^verbatim>\<open>self.params\<close>: the address of the dictionary.\<close>

definition get_params :: "heap \<Rightarrow> model \<Rightarrow> error + nat" where
  "get_params h m =
     (if \<not> fitted m then Inl (ValueError msg_params_unfitted) else Inr (params m))"

subsection \<open>A concrete league\<close>

text \<open>
  Two fixtures between the teams A and B; a sampler that returns two draws; a sampler that
  raises. The states are the ones the constructor and \<^verbatim>\<open>fit\<close> produce on them.
\<close>

definition ex_trace :: trace where
  "ex_trace = \<lparr>tr_home = [0, 1], tr_intercept = [1, 1],
               tr_atts_star = [[1, 3], [0, 2]], tr_def_star = [[0, 0], [2, 4]]\<rparr>"

definition ex_sample :: sampler where
  "ex_sample fx n d c = Inr ex_trace"

definition failing_sample :: sampler where
  "failing_sample fx n d c = Inl (SamplingError ''bad initial energy'')"

definition ex_h1 :: heap where
  "ex_h1 = \<lparr>cells = (\<lambda>_. Map.empty)(0 := Map.empty), next_addr = Suc 0\<rparr>"

definition ex_m1 :: model where
  "ex_m1 =
     \<lparr>fixtures =
        [\<lparr>goals_home = Some 1, goals_away = Some 0, team_home = Some ''B'',
          team_away = Some ''A'', weights = Some 1, home_index = Some (Suc 0),
          away_index = Some 0\<rparr>,
         \<lparr>goals_home = Some 2, goals_away = Some 2, team_home = Some ''A'',
          team_away = Some ''B'', weights = Some 1, home_index = Some 0,
          away_index = Some (Suc 0)\<rparr>],
      n_teams = 2, teams = [Some ''A'', Some ''B''], trace = None, draws = 200, params = 0,
      n_jobs = Some 4, fitted = False\<rparr>"

definition ex_params :: pdict where
  "ex_params =
     [''home'' \<mapsto> 1 / 2, ''intercept'' \<mapsto> 1, ''attack_A'' \<mapsto> - 1, ''defence_A'' \<mapsto> - (1 / 2),
      ''attack_B'' \<mapsto> 1, ''defence_B'' \<mapsto> 1 / 2]"

definition ex_h2 :: heap where
  "ex_h2 = ex_h1\<lparr>cells := (cells ex_h1)(0 := ex_params)\<rparr>"

definition ex_m2 :: model where
  "ex_m2 = ex_m1\<lparr>trace := Some ex_trace, fitted := True\<rparr>"

section \<open>Auxiliary facts\<close>

lemma and_then_Inr_iff: "and_then x f = Inr y \<longleftrightarrow> (\<exists>v. x = Inr v \<and> f v = Inr y)"
  by (cases x) auto

lemma set_team_table: "set (team_table col) = set col"
proof (rule set_eqI)
  fix x show "x \<in> set (team_table col) \<longleftrightarrow> x \<in> set col"
    by (cases x) (auto simp: team_table_def split: option.splits)
qed

lemma distinct_team_table: "distinct (team_table col)"
  by (auto simp: team_table_def distinct_map)

lemma length_team_table: "length (team_table col) = length (remdups col)"
proof -
  have "length (team_table col) = card (set (team_table col))"
    using distinct_team_table by (simp add: distinct_card)
  also have "\<dots> = length (remdups col)"
    by (simp add: set_team_table length_remdups_card_conv)
  finally show ?thesis .
qed

lemma column_eq:
  "column i xs =
     (if \<forall>x\<in>set xs. i < length x then Inr (map (\<lambda>x. x ! i) xs) else Inl IndexError)"
  by (induction xs) auto

lemma fit_teams_Cons_None:
  "fit_teams tr ((i, u) # rows) d = (None, d') \<longleftrightarrow>
     (\<exists>t. u = Some t \<and> (\<forall>x\<in>set (trace_atts tr). i < length x) \<and>
          (\<forall>x\<in>set (trace_defs tr). i < length x) \<and>
          fit_teams tr rows
            (d(''attack_'' @ t \<mapsto> np_mean (map (\<lambda>x. x ! i) (trace_atts tr)),
               ''defence_'' @ t \<mapsto> np_mean (map (\<lambda>x. x ! i) (trace_defs tr)))) = (None, d'))"
  by (cases u) (simp_all add: column_eq)

lemma fit_teams_None:
  "fit_teams tr rows d = (None, d') \<Longrightarrow> (i, u) \<in> set rows \<Longrightarrow>
     u \<noteq> None \<and> (\<forall>x\<in>set (trace_atts tr). i < length x) \<and>
     (\<forall>x\<in>set (trace_defs tr). i < length x)"
proof (induction rows arbitrary: d)
  case Nil
  then show ?case by simp
next
  case (Cons r rows)
  obtain j v where r: "r = (j, v)" by (cases r)
  from Cons.prems(1) show ?case
    unfolding r fit_teams_Cons_None
    using Cons.IH Cons.prems(2) r by auto
qed

lemma fit_teams_dom:
  "fit_teams tr rows d = (None, d') \<Longrightarrow>
     dom d' = dom d \<union> {''attack_'' @ t | t. Some t \<in> snd ` set rows}
                    \<union> {''defence_'' @ t | t. Some t \<in> snd ` set rows}"
proof (induction rows arbitrary: d)
  case Nil
  then show ?case by simp
next
  case (Cons r rows)
  obtain j v where r: "r = (j, v)" by (cases r)
  from Cons.prems obtain t where t: "v = Some t"
    and rest: "fit_teams tr rows
            (d(''attack_'' @ t \<mapsto> np_mean (map (\<lambda>x. x ! j) (trace_atts tr)),
               ''defence_'' @ t \<mapsto> np_mean (map (\<lambda>x. x ! j) (trace_defs tr)))) = (None, d')"
    unfolding r fit_teams_Cons_None by blast
  show ?case
    unfolding Cons.IH [OF rest] r t by auto
qed

lemma fit_teams_other:
  "fit_teams tr rows d = (None, d') \<Longrightarrow>
     \<forall>t. Some t \<in> snd ` set rows \<longrightarrow> k \<noteq> ''attack_'' @ t \<and> k \<noteq> ''defence_'' @ t \<Longrightarrow>
     d' k = d k"
proof (induction rows arbitrary: d)
  case Nil
  then show ?case by simp
next
  case (Cons r rows)
  obtain j v where r: "r = (j, v)" by (cases r)
  from Cons.prems(1) obtain t where t: "v = Some t"
    and rest: "fit_teams tr rows
            (d(''attack_'' @ t \<mapsto> np_mean (map (\<lambda>x. x ! j) (trace_atts tr)),
               ''defence_'' @ t \<mapsto> np_mean (map (\<lambda>x. x ! j) (trace_defs tr)))) = (None, d')"
    unfolding r fit_teams_Cons_None by blast
  have "d' k = (d(''attack_'' @ t \<mapsto> np_mean (map (\<lambda>x. x ! j) (trace_atts tr)),
               ''defence_'' @ t \<mapsto> np_mean (map (\<lambda>x. x ! j) (trace_defs tr)))) k"
    using Cons.IH [OF rest] Cons.prems(2) by simp
  also have "\<dots> = d k"
    using Cons.prems(2) unfolding r t by (simp del: append.simps)
  finally show ?case .
qed

lemma fit_teams_value:
  "fit_teams tr rows d = (None, d') \<Longrightarrow> distinct (map snd rows) \<Longrightarrow> (i, Some t) \<in> set rows \<Longrightarrow>
     d' (''attack_'' @ t) = Some (np_mean (map (\<lambda>x. x ! i) (trace_atts tr))) \<and>
     d' (''defence_'' @ t) = Some (np_mean (map (\<lambda>x. x ! i) (trace_defs tr)))"
proof (induction rows arbitrary: d)
  case Nil
  then show ?case by simp
next
  case (Cons r rows)
  obtain j v where r: "r = (j, v)" by (cases r)
  from Cons.prems(1) obtain s where s: "v = Some s"
    and rest: "fit_teams tr rows
            (d(''attack_'' @ s \<mapsto> np_mean (map (\<lambda>x. x ! j) (trace_atts tr)),
               ''defence_'' @ s \<mapsto> np_mean (map (\<lambda>x. x ! j) (trace_defs tr)))) = (None, d')"
    unfolding r fit_teams_Cons_None by blast
  show ?case
  proof (cases "(i, Some t) \<in> set rows")
    case True
    from Cons.IH [OF rest _ True] Cons.prems(2) show ?thesis by simp
  next
    case False
    with Cons.prems(3) have eq: "j = i" "s = t" by (auto simp: r s)
    from Cons.prems(2) have fresh: "Some t \<notin> snd ` set rows" by (simp add: r s eq)
    have a: "d' (''attack_'' @ t) = Some (np_mean (map (\<lambda>x. x ! i) (trace_atts tr)))"
      using fit_teams_other [OF rest, of "''attack_'' @ t"] fresh by (auto simp: eq)
    have b: "d' (''defence_'' @ t) = Some (np_mean (map (\<lambda>x. x ! i) (trace_defs tr)))"
      using fit_teams_other [OF rest, of "''defence_'' @ t"] fresh by (auto simp: eq)
    from a b show ?thesis by simp
  qed
qed

lemma fit_None_iff:
  "fit sample h m = (None, h2, m2) \<longleftrightarrow>
     (\<exists>tr d3. sample (fixtures m) (n_teams m) (draws m) (n_jobs m) = Inr tr \<and>
        fit_teams tr (enumerate 0 (teams m))
          ((cells h (params m))(''home'' \<mapsto> np_mean (tr_home tr),
                                ''intercept'' \<mapsto> np_mean (tr_intercept tr))) = (None, d3) \<and>
        h2 = h\<lparr>cells := (cells h)(params m := d3)\<rparr> \<and>
        m2 = m\<lparr>trace := Some tr, fitted := True\<rparr>)"
  by (auto simp: fit_def Let_def split: sum.splits prod.splits option.splits)

lemma in_enumerate: "x \<in> set xs \<Longrightarrow> \<exists>i. (i, x) \<in> set (enumerate 0 xs)"
proof -
  assume "x \<in> set xs"
  then obtain i where "i < length xs" "xs ! i = x" by (auto simp: in_set_conv_nth)
  then have "(i, x) \<in> set (enumerate 0 xs)" by (simp add: in_set_enumerate_eq)
  then show ?thesis ..
qed

lemma snd_enumerate: "snd ` set (enumerate n xs) = set xs"
  by (metis list.set_map map_snd_enumerate)

lemma fit_teams_mono:
  "fit_teams tr rows d = (None, d') \<Longrightarrow> d k \<noteq> None \<Longrightarrow> d' k \<noteq> None"
proof (induction rows arbitrary: d)
  case Nil
  then show ?case by simp
next
  case (Cons r rows)
  obtain j v where r: "r = (j, v)" by (cases r)
  from Cons.prems(1) obtain t where
    rest: "fit_teams tr rows
            (d(''attack_'' @ t \<mapsto> np_mean (map (\<lambda>x. x ! j) (trace_atts tr)),
               ''defence_'' @ t \<mapsto> np_mean (map (\<lambda>x. x ! j) (trace_defs tr)))) = (None, d')"
    unfolding r fit_teams_Cons_None by blast
  show ?case
    by (rule Cons.IH [OF rest]) (use Cons.prems(2) in simp)
qed

lemma fit_teams_keys:
  "fit_teams tr rows d = (None, d') \<Longrightarrow> (i, Some t) \<in> set rows \<Longrightarrow>
     d' (''attack_'' @ t) \<noteq> None \<and> d' (''defence_'' @ t) \<noteq> None"
proof (induction rows arbitrary: d)
  case Nil
  then show ?case by simp
next
  case (Cons r rows)
  obtain j v where r: "r = (j, v)" by (cases r)
  from Cons.prems(1) obtain s where s: "v = Some s"
    and rest: "fit_teams tr rows
            (d(''attack_'' @ s \<mapsto> np_mean (map (\<lambda>x. x ! j) (trace_atts tr)),
               ''defence_'' @ s \<mapsto> np_mean (map (\<lambda>x. x ! j) (trace_defs tr)))) = (None, d')"
    unfolding r fit_teams_Cons_None by blast
  show ?case
  proof (cases "(i, Some t) \<in> set rows")
    case True
    from Cons.IH [OF rest True] show ?thesis .
  next
    case False
    with Cons.prems(2) have eq: "s = t" by (auto simp: r s)
    have "d' (''attack_'' @ t) \<noteq> None"
      by (rule fit_teams_mono [OF rest]) (simp add: eq)
    moreover have "d' (''defence_'' @ t) \<noteq> None"
      by (rule fit_teams_mono [OF rest]) (simp add: eq)
    ultimately show ?thesis by simp
  qed
qed

text \<open>What a successful fit leaves behind.\<close>

lemma fit_None_fields:
  assumes "fit sample h m = (None, h2, m2)"
  shows "fitted m2 \<and> teams m2 = teams m \<and> params m2 = params m \<and> n_teams m2 = n_teams m"
  using assms unfolding fit_None_iff by auto

lemma fit_None_teams:
  assumes "fit sample h m = (None, h2, m2)"
  shows "None \<notin> set (teams m)"
proof
  from assms obtain tr d3 where
    ft: "fit_teams tr (enumerate 0 (teams m))
          ((cells h (params m))(''home'' \<mapsto> np_mean (tr_home tr),
                                ''intercept'' \<mapsto> np_mean (tr_intercept tr))) = (None, d3)"
    unfolding fit_None_iff by blast
  assume "None \<in> set (teams m)"
  from in_enumerate [OF this] obtain i where "(i, None) \<in> set (enumerate 0 (teams m))" ..
  from fit_teams_None [OF ft this] show False by simp
qed

lemma fit_None_keys:
  assumes "fit sample h m = (None, h2, m2)"
  shows "cells h2 (params m2) ''home'' \<noteq> None"
    and "cells h2 (params m2) ''intercept'' \<noteq> None"
    and "Some t \<in> set (teams m) \<Longrightarrow> cells h2 (params m2) (''attack_'' @ t) \<noteq> None"
    and "Some t \<in> set (teams m) \<Longrightarrow> cells h2 (params m2) (''defence_'' @ t) \<noteq> None"
proof -
  from assms obtain tr d3 where
    ft: "fit_teams tr (enumerate 0 (teams m))
          ((cells h (params m))(''home'' \<mapsto> np_mean (tr_home tr),
                                ''intercept'' \<mapsto> np_mean (tr_intercept tr))) = (None, d3)"
    and h2: "h2 = h\<lparr>cells := (cells h)(params m := d3)\<rparr>"
    and m2: "m2 = m\<lparr>trace := Some tr, fitted := True\<rparr>"
    unfolding fit_None_iff by blast
  have cell: "cells h2 (params m2) = d3" by (simp add: h2 m2)
  show "cells h2 (params m2) ''home'' \<noteq> None"
    unfolding cell by (rule fit_teams_mono [OF ft]) simp
  show "cells h2 (params m2) ''intercept'' \<noteq> None"
    unfolding cell by (rule fit_teams_mono [OF ft]) simp
  {
    assume "Some t \<in> set (teams m)"
    from in_enumerate [OF this]
    obtain i where i: "(i, Some t) \<in> set (enumerate 0 (teams m))" ..
    from fit_teams_keys [OF ft i]
    show "cells h2 (params m2) (''attack_'' @ t) \<noteq> None"
      "cells h2 (params m2) (''defence_'' @ t) \<noteq> None"
      unfolding cell by simp_all
  }
qed

lemma predict_fitted:
  assumes "fitted m" "Some a \<in> set (teams m)" "Some b \<in> set (teams m)"
    and "cells h (params m) ''home'' = Some hadv"
    and "cells h (params m) ''intercept'' = Some ic"
    and "cells h (params m) (''attack_'' @ a) = Some atta"
    and "cells h (params m) (''attack_'' @ b) = Some attb"
    and "cells h (params m) (''defence_'' @ a) = Some defa"
    and "cells h (params m) (''defence_'' @ b) = Some defb"
  shows "predict h m a b k =
     Inr \<lparr>grid = np_outer (map (poisson_pmf (exp (ic + hadv + atta + defb))) (np_arange k))
                           (map (poisson_pmf (exp (ic + attb + defa))) (np_arange k)),
          home_goal_expectation = exp (ic + hadv + atta + defb),
          away_goal_expectation = exp (ic + attb + defa)\<rparr>"
  using assms by (simp add: predict_def dict_getitem_def Let_def del: append.simps)

subsection \<open>The concrete league\<close>

lemma ex_init:
  "init (Some 4) empty_heap [Num 1, Num 2] [Num 0, Num 2] [''B'', ''A''] [''A'', ''B'']
     (Scalar 1) None 200 = Inr (ex_h1, ex_m1)"
  by (simp add: init_def pad_def team_table_def new_dict_def empty_heap_def py_int_def
      in_int64_def Let_def ex_h1_def ex_m1_def)

lemma ex_fit: "fit ex_sample ex_h1 ex_m1 = (None, ex_h2, ex_m2)"
  by (simp add: fit_def ex_sample_def ex_h1_def ex_m1_def ex_h2_def ex_m2_def ex_params_def
      ex_trace_def trace_atts_def trace_defs_def center_def np_mean_def Let_def)

lemma init_Inr_fields:
  assumes "init cpu h gh ga th ta w jobs d = Inr (h1, m1)"
  shows "\<not> fitted m1" and "trace m1 = None" and "draws m1 = d"
    and "cells h1 (params m1) = Map.empty"
    and "\<exists>k. teams m1 = team_table (pad k th)"
    and "n_teams m1 = length (teams m1)"
  using assms
  by (auto simp: init_def Let_def and_then_Inr_iff new_dict_def length_team_table
      split: prod.splits)

subsection \<open>Prediction after a successful fit\<close>

lemma fit_predict:
  assumes fit: "fit sample h m = (None, h2, m2)"
    and a: "Some a \<in> set (teams m2)" and b: "Some b \<in> set (teams m2)"
  shows "\<exists>hadv ic atta attb defa defb.
           cells h2 (params m2) ''home'' = Some hadv \<and>
           cells h2 (params m2) ''intercept'' = Some ic \<and>
           cells h2 (params m2) (''attack_'' @ a) = Some atta \<and>
           cells h2 (params m2) (''attack_'' @ b) = Some attb \<and>
           cells h2 (params m2) (''defence_'' @ a) = Some defa \<and>
           cells h2 (params m2) (''defence_'' @ b) = Some defb \<and>
           (\<forall>k. predict h2 m2 a b k =
             Inr \<lparr>grid = np_outer (map (poisson_pmf (exp (ic + hadv + atta + defb))) (np_arange k))
                                   (map (poisson_pmf (exp (ic + attb + defa))) (np_arange k)),
                  home_goal_expectation = exp (ic + hadv + atta + defb),
                  away_goal_expectation = exp (ic + attb + defa)\<rparr>)"
proof -
  from fit_None_fields [OF fit] have f: "fitted m2" and t: "teams m2 = teams m" by simp_all
  from a b have a': "Some a \<in> set (teams m)" and b': "Some b \<in> set (teams m)"
    by (simp_all add: t)
  from fit_None_keys(1) [OF fit] obtain hadv where 1: "cells h2 (params m2) ''home'' = Some hadv"
    by blast
  from fit_None_keys(2) [OF fit] obtain ic where 2: "cells h2 (params m2) ''intercept'' = Some ic"
    by blast
  from fit_None_keys(3) [OF fit a'] obtain atta where
    3: "cells h2 (params m2) (''attack_'' @ a) = Some atta" by blast
  from fit_None_keys(3) [OF fit b'] obtain attb where
    4: "cells h2 (params m2) (''attack_'' @ b) = Some attb" by blast
  from fit_None_keys(4) [OF fit a'] obtain defa where
    5: "cells h2 (params m2) (''defence_'' @ a) = Some defa" by blast
  from fit_None_keys(4) [OF fit b'] obtain defb where
    6: "cells h2 (params m2) (''defence_'' @ b) = Some defb" by blast
  from predict_fitted [OF f a b 1 2 3 4 5 6] 1 2 3 4 5 6
  show ?thesis by blast
qed

lemma ex_known: "Some ''A'' \<in> set (teams ex_m2)" "Some ''B'' \<in> set (teams ex_m2)"
  by (simp_all add: ex_m2_def ex_m1_def)

subsection \<open>Teams and messages\<close>

lemma set_pad: "set (pad n xs) = Some ` set xs \<union> (if length xs < n then {None} else {})"
  by (auto simp: pad_def)

lemma init_teams:
  assumes "init cpu h gh ga th ta w jobs d = Inr (h1, m1)"
  shows "Some t \<in> set (teams m1) \<longleftrightarrow> t \<in> set th"
proof -
  from init_Inr_fields(5) [OF assms] obtain k where "teams m1 = team_table (pad k th)" ..
  then show ?thesis by (auto simp: set_team_table set_pad)
qed



subsection \<open>The constructor\<close>










subsection \<open>The stored estimates\<close>

lemma sum_list_center: "x \<noteq> [] \<Longrightarrow> sum_list (center x) = 0"
proof -
  assume "x \<noteq> []"
  have "sum_list (map (\<lambda>v. v - c) x) = sum_list x - real (length x) * c" for c :: real
    by (induction x) (simp_all add: algebra_simps)
  then have "sum_list (center x) = sum_list x - real (length x) * (sum_list x / real (length x))"
    by (simp add: center_def np_mean_def)
  also have "\<dots> = 0" using \<open>x \<noteq> []\<close> by simp
  finally show ?thesis .
qed

lemma length_center: "length (center x) = length x"
  by (simp add: center_def)

lemma sum_columns:
  fixes C :: "real list list"
  assumes "\<forall>x\<in>set C. length x = n"
  shows "(\<Sum>i<n. sum_list (map (\<lambda>x. x ! i) C)) = sum_list (map sum_list C)"
  using assms
proof (induction C)
  case Nil
  show ?case by simp
next
  case (Cons x C)
  then have len: "length x = n" and rest: "\<forall>x\<in>set C. length x = n" by simp_all
  have "(\<Sum>i<n. x ! i) = sum_list x"
    unfolding len [symmetric] by (simp add: sum_list_sum_nth atLeast0LessThan)
  then show ?case
    using Cons.IH [OF rest] by (simp add: sum.distrib)
qed

lemma column_means_sum:
  fixes C :: "real list list"
  assumes "\<forall>x\<in>set C. length x = n \<and> sum_list x = 0"
  shows "sum_list (map (\<lambda>i. np_mean (map (\<lambda>x. x ! i) C)) [0..<n]) = 0"
proof -
  have len: "\<forall>x\<in>set C. length x = n" and zero: "\<forall>x\<in>set C. sum_list x = 0"
    using assms by simp_all
  have "sum_list (map (\<lambda>i. np_mean (map (\<lambda>x. x ! i) C)) [0..<n]) =
        (\<Sum>i<n. sum_list (map (\<lambda>x. x ! i) C) / real (length C))"
    by (simp add: interv_sum_list_conv_sum_set_nat np_mean_def atLeast0LessThan)
  also have "\<dots> = (\<Sum>i<n. sum_list (map (\<lambda>x. x ! i) C)) / real (length C)"
    by (simp add: sum_divide_distrib)
  also have "(\<Sum>i<n. sum_list (map (\<lambda>x. x ! i) C)) = sum_list (map sum_list C)"
    by (rule sum_columns [OF len])
  also have "sum_list (map sum_list C) = 0"
    using zero by (induction C) simp_all
  finally show ?thesis by simp
qed

lemma stored_means:
  assumes ft: "fit_teams tr (enumerate 0 tms) d = (None, d')" and dist: "distinct tms"
    and i: "i < length tms"
  shows "\<exists>t. tms ! i = Some t \<and>
           d' (''attack_'' @ t) = Some (np_mean (map (\<lambda>x. x ! i) (trace_atts tr))) \<and>
           d' (''defence_'' @ t) = Some (np_mean (map (\<lambda>x. x ! i) (trace_defs tr)))"
proof -
  from i have mem: "(i, tms ! i) \<in> set (enumerate 0 tms)"
    by (simp add: in_set_enumerate_eq)
  from fit_teams_None [OF ft mem] obtain t where t: "tms ! i = Some t" by auto
  have d: "distinct (map snd (enumerate 0 tms))" using dist by simp
  from mem have mem': "(i, Some t) \<in> set (enumerate 0 tms)" by (simp add: t)
  from fit_teams_value [OF ft d mem'] t show ?thesis by simp
qed

lemma fitted_store:
  assumes init: "init cpu h gh ga th ta w jobs d = Inr (h1, m1)"
    and fit: "fit sample h1 m1 = (None, h2, m2)"
  shows "\<exists>tr. sample (fixtures m1) (n_teams m1) (draws m1) (n_jobs m1) = Inr tr \<and>
           trace m2 = Some tr \<and> fitted m2 \<and> teams m2 = teams m1 \<and>
           fit_teams tr (enumerate 0 (teams m1))
             [''home'' \<mapsto> np_mean (tr_home tr), ''intercept'' \<mapsto> np_mean (tr_intercept tr)]
             = (None, cells h2 (params m2))"
proof -
  from fit obtain tr d3 where
    s: "sample (fixtures m1) (n_teams m1) (draws m1) (n_jobs m1) = Inr tr"
    and ft: "fit_teams tr (enumerate 0 (teams m1))
          ((cells h1 (params m1))(''home'' \<mapsto> np_mean (tr_home tr),
                                  ''intercept'' \<mapsto> np_mean (tr_intercept tr))) = (None, d3)"
    and h2: "h2 = h1\<lparr>cells := (cells h1)(params m1 := d3)\<rparr>"
    and m2: "m2 = m1\<lparr>trace := Some tr, fitted := True\<rparr>"
    unfolding fit_None_iff by blast
  have cell: "cells h2 (params m2) = d3" by (simp add: h2 m2)
  have "trace m2 = Some tr" "fitted m2" "teams m2 = teams m1" by (simp_all add: m2)
  with s ft show ?thesis
    unfolding cell init_Inr_fields(4) [OF init] by blast
qed

lemma init_fit_teams:
  assumes init: "init cpu h gh ga th ta w jobs d = Inr (h1, m1)"
    and fit: "fit sample h1 m1 = (None, h2, m2)"
  shows "set (teams m1) = Some ` set th" and "distinct (teams m1)"
    and "length (teams m1) = n_teams m1"
proof -
  have "x \<in> set (teams m1) \<longleftrightarrow> x \<in> Some ` set th" for x
  proof (cases x)
    case None
    with fit_None_teams [OF fit] show ?thesis by auto
  next
    case (Some t)
    with init_teams [OF init, of t] show ?thesis by auto
  qed
  then show "set (teams m1) = Some ` set th" by blast
  show "distinct (teams m1)"
    using init_Inr_fields(5) [OF init] by (auto simp: distinct_team_table)
  show "length (teams m1) = n_teams m1"
    by (simp add: init_Inr_fields(6) [OF init])
qed

lemma key_sets:
  "{''attack_'' @ t | t. Some t \<in> Some ` S} = (\<lambda>t. ''attack_'' @ t) ` S"
  "{''defence_'' @ t | t. Some t \<in> Some ` S} = (\<lambda>t. ''defence_'' @ t) ` S"
  by blast+

lemma ex_sampled:
  "ex_sample (fixtures ex_m1) (n_teams ex_m1) (draws ex_m1) (n_jobs ex_m1) = Inr ex_trace"
  by (simp add: ex_sample_def)

lemma ex_trace_nonempty:
  "tr_home ex_trace \<noteq> []" "tr_intercept ex_trace \<noteq> []"
  "tr_atts_star ex_trace \<noteq> []" "tr_def_star ex_trace \<noteq> []"
  by (simp_all add: ex_trace_def)

section \<open>The claims\<close>

subsection \<open>C5: an unfitted model rejects \<^verbatim>\<open>predict\<close> and \<^verbatim>\<open>get_params\<close>\<close>

text \<open>
  Claim C5. On a freshly constructed model, on which \<^verbatim>\<open>fit()\<close> has not completed,
  \<^verbatim>\<open>predict\<close> and \<^verbatim>\<open>get_params\<close> fail with the not-fitted error: the
  \<^verbatim>\<open>ValueError\<close> whose message says that the parameters have not been fit yet. This
  holds whatever the store has become in the meantime and whatever the arguments are.
\<close>

theorem unfitted_rejected:
  assumes "init cpu h gh ga th ta w jobs d = Inr (h1, m1)"
  shows "\<not> fitted m1 \<and>
         predict h' m1 home_team away_team max_goals = Inl (ValueError msg_predict_unfitted) \<and>
         get_params h' m1 = Inl (ValueError msg_params_unfitted)"
  using init_Inr_fields(1) [OF assms] by (simp add: predict_def get_params_def)

theorem unfitted_rejected_witness:
  "\<not> fitted ex_m1 \<and>
   predict ex_h1 ex_m1 ''A'' ''B'' 15 = Inl (ValueError msg_predict_unfitted) \<and>
   get_params ex_h1 ex_m1 = Inl (ValueError msg_params_unfitted)"
  using unfitted_rejected [OF ex_init, of ex_h1 "''A''" "''B''" 15] by simp

subsection \<open>C9: a failed sampling step leaves the model unfitted\<close>

text \<open>
  Claim C9. If the sampling step inside \<^verbatim>\<open>fit()\<close> raises, \<^verbatim>\<open>fit\<close> raises that
  exception and leaves the store and the object exactly as they were: on an unfitted model
  the flag stays false, no parameter has been written, and \<^verbatim>\<open>predict\<close> and
  \<^verbatim>\<open>get_params\<close> still fail with the not-fitted error.
\<close>

theorem failed_sampling_stays_unfitted:
  assumes "sample (fixtures m) (n_teams m) (draws m) (n_jobs m) = Inl e" and "\<not> fitted m"
  shows "fit sample h m = (Some e, h, m) \<and>
         predict h m home_team away_team max_goals = Inl (ValueError msg_predict_unfitted) \<and>
         get_params h m = Inl (ValueError msg_params_unfitted)"
  using assms by (simp add: fit_def predict_def get_params_def)

theorem failed_sampling_stays_unfitted_witness:
  "fit failing_sample ex_h1 ex_m1 = (Some (SamplingError ''bad initial energy''), ex_h1, ex_m1) \<and>
   predict ex_h1 ex_m1 ''A'' ''B'' 15 = Inl (ValueError msg_predict_unfitted) \<and>
   get_params ex_h1 ex_m1 = Inl (ValueError msg_params_unfitted)"
proof -
  have s: "failing_sample (fixtures ex_m1) (n_teams ex_m1) (draws ex_m1) (n_jobs ex_m1) =
             Inl (SamplingError ''bad initial energy'')"
    by (simp add: failing_sample_def)
  have u: "\<not> fitted ex_m1" by (simp add: ex_m1_def)
  show ?thesis
    using failed_sampling_stays_unfitted
      [where sample = failing_sample and m = ex_m1 and h = ex_h1 and home_team = "''A''"
         and away_team = "''B''" and max_goals = 15, OF s u]
    by simp
qed

subsection \<open>C1: the grid is the outer product of two truncated Poisson vectors\<close>

text \<open>
  Claim C1. On a fitted model and two known teams, \<^verbatim>\<open>predict(home_team, away_team,
  max_goals)\<close> reads the six point estimates from the parameter dictionary, computes
  \<open>home_rate = exp (intercept + home_advantage + attack[home] + defence[away])\<close> and
  \<open>away_rate = exp (intercept + attack[away] + defence[home])\<close>, and returns the matrix
  with \<^verbatim>\<open>max_goals\<close> rows and columns whose entry in row \<open>i\<close> and column \<open>j\<close> is the
  Poisson probability of \<open>i\<close> at the home rate times the Poisson probability of \<open>j\<close> at the
  away rate. (The home advantage is stored under the key \<^verbatim>\<open>"home"\<close>; for a negative
  \<^verbatim>\<open>max_goals\<close> the range of outcomes is empty, as for 0.)
\<close>

theorem predict_outer_product:
  assumes "fit sample h m = (None, h2, m2)"
    and "Some a \<in> set (teams m2)" and "Some b \<in> set (teams m2)"
  shows "\<exists>hadv ic atta attb defa defb g.
           cells h2 (params m2) ''home'' = Some hadv \<and>
           cells h2 (params m2) ''intercept'' = Some ic \<and>
           cells h2 (params m2) (''attack_'' @ a) = Some atta \<and>
           cells h2 (params m2) (''attack_'' @ b) = Some attb \<and>
           cells h2 (params m2) (''defence_'' @ a) = Some defa \<and>
           cells h2 (params m2) (''defence_'' @ b) = Some defb \<and>
           predict h2 m2 a b k = Inr g \<and>
           home_goal_expectation g = exp (ic + hadv + atta + defb) \<and>
           away_goal_expectation g = exp (ic + attb + defa) \<and>
           length (grid g) = nat k \<and>
           (\<forall>i<nat k. length (grid g ! i) = nat k \<and>
              (\<forall>j<nat k. grid g ! i ! j =
                 (exp (- home_goal_expectation g) * home_goal_expectation g ^ i / fact i) *
                 (exp (- away_goal_expectation g) * away_goal_expectation g ^ j / fact j)))"
proof -
  from fit_predict [OF assms] obtain hadv ic atta attb defa defb where
    keys: "cells h2 (params m2) ''home'' = Some hadv"
      "cells h2 (params m2) ''intercept'' = Some ic"
      "cells h2 (params m2) (''attack_'' @ a) = Some atta"
      "cells h2 (params m2) (''attack_'' @ b) = Some attb"
      "cells h2 (params m2) (''defence_'' @ a) = Some defa"
      "cells h2 (params m2) (''defence_'' @ b) = Some defb"
    and p: "predict h2 m2 a b k =
             Inr \<lparr>grid = np_outer (map (poisson_pmf (exp (ic + hadv + atta + defb))) (np_arange k))
                                   (map (poisson_pmf (exp (ic + attb + defa))) (np_arange k)),
                  home_goal_expectation = exp (ic + hadv + atta + defb),
                  away_goal_expectation = exp (ic + attb + defa)\<rparr>"
    by blast
  define g where "g = \<lparr>grid = np_outer (map (poisson_pmf (exp (ic + hadv + atta + defb))) (np_arange k))
                                   (map (poisson_pmf (exp (ic + attb + defa))) (np_arange k)),
                  home_goal_expectation = exp (ic + hadv + atta + defb),
                  away_goal_expectation = exp (ic + attb + defa)\<rparr>"
  have len: "length (grid g) = nat k"
    by (simp add: g_def np_outer_def np_arange_def)
  have entries: "\<forall>i<nat k. length (grid g ! i) = nat k \<and>
              (\<forall>j<nat k. grid g ! i ! j =
                 (exp (- home_goal_expectation g) * home_goal_expectation g ^ i / fact i) *
                 (exp (- away_goal_expectation g) * away_goal_expectation g ^ j / fact j))"
    by (simp add: g_def np_outer_def np_arange_def poisson_pmf_def)
  have "predict h2 m2 a b k = Inr g" "home_goal_expectation g = exp (ic + hadv + atta + defb)"
    "away_goal_expectation g = exp (ic + attb + defa)"
    by (simp_all add: p g_def)
  with keys len entries show ?thesis by blast
qed

theorem predict_outer_product_witness:
  "\<exists>hadv ic atta attb defa defb g.
           cells ex_h2 (params ex_m2) ''home'' = Some hadv \<and>
           cells ex_h2 (params ex_m2) ''intercept'' = Some ic \<and>
           cells ex_h2 (params ex_m2) (''attack_'' @ ''A'') = Some atta \<and>
           cells ex_h2 (params ex_m2) (''attack_'' @ ''B'') = Some attb \<and>
           cells ex_h2 (params ex_m2) (''defence_'' @ ''A'') = Some defa \<and>
           cells ex_h2 (params ex_m2) (''defence_'' @ ''B'') = Some defb \<and>
           predict ex_h2 ex_m2 ''A'' ''B'' 3 = Inr g \<and>
           home_goal_expectation g = exp (ic + hadv + atta + defb) \<and>
           away_goal_expectation g = exp (ic + attb + defa) \<and>
           length (grid g) = nat 3 \<and>
           (\<forall>i<nat 3. length (grid g ! i) = nat 3 \<and>
              (\<forall>j<nat 3. grid g ! i ! j =
                 (exp (- home_goal_expectation g) * home_goal_expectation g ^ i / fact i) *
                 (exp (- away_goal_expectation g) * away_goal_expectation g ^ j / fact j)))"
  by (rule predict_outer_product [OF ex_fit ex_known])

subsection \<open>C10: no validation of \<^verbatim>\<open>max_goals\<close>\<close>

text \<open>
  Claim C10. On a fitted model and two known teams, \<^verbatim>\<open>predict\<close> with
  \<^verbatim>\<open>max_goals\<close> zero or negative raises nothing: both probability vectors are empty and
  the matrix has no rows and no columns.
\<close>

theorem nonpositive_max_goals_empty_grid:
  assumes "fit sample h m = (None, h2, m2)"
    and "Some a \<in> set (teams m2)" and "Some b \<in> set (teams m2)"
    and "k \<le> 0"
  shows "\<exists>g. predict h2 m2 a b k = Inr g \<and> grid g = [] \<and>
             map (poisson_pmf (home_goal_expectation g)) (np_arange k) = [] \<and>
             map (poisson_pmf (away_goal_expectation g)) (np_arange k) = []"
proof -
  from fit_predict [OF assms(1-3)] obtain g where "predict h2 m2 a b k = Inr g"
    and "grid g = np_outer (map (poisson_pmf (home_goal_expectation g)) (np_arange k))
                           (map (poisson_pmf (away_goal_expectation g)) (np_arange k))"
    by force
  moreover from assms(4) have "np_arange k = []" by (simp add: np_arange_def)
  ultimately show ?thesis by (simp add: np_outer_def)
qed

theorem nonpositive_max_goals_empty_grid_witness:
  "(0::int) \<le> 0 \<and>
   (\<exists>g. predict ex_h2 ex_m2 ''A'' ''B'' 0 = Inr g \<and> grid g = [] \<and>
             map (poisson_pmf (home_goal_expectation g)) (np_arange 0) = [] \<and>
             map (poisson_pmf (away_goal_expectation g)) (np_arange 0) = [])"
  using nonpositive_max_goals_empty_grid [OF ex_fit ex_known, of 0] by simp

subsection \<open>C7: shape, sign and mass of the grid\<close>

text \<open>
  Claim C7 bounds the sum of the entries that \<^verbatim>\<open>predict\<close> returns by 1 and orders these
  sums in \<open>k\<close>. The entries are doubles, each the rounding of a product of two rounded
  Poisson masses, and their sum can exceed 1 by rounding alone; whether it does is a fact of
  floating-point arithmetic, which this embedding, over the reals, does not represent. The
  claim is therefore not stated here. What does not depend on rounding, the number of rows and
  columns and the formula of every entry, is part of C1.
\<close>

subsection \<open>C4: unknown teams\<close>




subsection \<open>C8: what \<^verbatim>\<open>get_params\<close> returns\<close>

text \<open>
  Claim C8, as stated, fails: \<^verbatim>\<open>get_params\<close> returns the dictionary object of the
  model. On the fitted league of A and B, storing 5 under \<^verbatim>\<open>"home"\<close> in the returned
  mapping changes the stored parameter from \<open>1/2\<close> to 5, and the next \<^verbatim>\<open>predict\<close>
  returns another grid.
\<close>

theorem get_params_copy_counterexample:
  "fit ex_sample ex_h1 ex_m1 = (None, ex_h2, ex_m2) \<and>
   get_params ex_h2 ex_m2 = Inr 0 \<and>
   cells ex_h2 (params ex_m2) ''home'' = Some (1 / 2) \<and>
   cells (dict_setitem ex_h2 0 ''home'' 5) (params ex_m2) ''home'' = Some 5 \<and>
   predict (dict_setitem ex_h2 0 ''home'' 5) ex_m2 ''A'' ''B'' 1 \<noteq> predict ex_h2 ex_m2 ''A'' ''B'' 1"
proof -
  have 1: "get_params ex_h2 ex_m2 = Inr 0"
    by (simp add: get_params_def ex_m2_def ex_m1_def)
  have 2: "cells ex_h2 (params ex_m2) ''home'' = Some (1 / 2)"
    by (simp add: ex_h2_def ex_m2_def ex_m1_def ex_h1_def ex_params_def)
  have 3: "cells (dict_setitem ex_h2 0 ''home'' 5) (params ex_m2) ''home'' = Some 5"
    by (simp add: dict_setitem_def ex_h2_def ex_m2_def ex_m1_def ex_h1_def)
  have 4: "predict ex_h2 ex_m2 ''A'' ''B'' 1 =
      Inr \<lparr>grid = np_outer (map (poisson_pmf (exp (1 + 1 / 2 + - 1 + 1 / 2))) (np_arange 1))
                                   (map (poisson_pmf (exp (1 + 1 + - (1 / 2)))) (np_arange 1)),
                  home_goal_expectation = exp (1 + 1 / 2 + - 1 + 1 / 2),
                  away_goal_expectation = exp (1 + 1 + - (1 / 2))\<rparr>"
    by (rule predict_fitted)
       (simp_all add: ex_h2_def ex_m2_def ex_m1_def ex_h1_def ex_params_def)
  have 5: "predict (dict_setitem ex_h2 0 ''home'' 5) ex_m2 ''A'' ''B'' 1 =
      Inr \<lparr>grid = np_outer (map (poisson_pmf (exp (1 + 5 + - 1 + 1 / 2))) (np_arange 1))
                                   (map (poisson_pmf (exp (1 + 1 + - (1 / 2)))) (np_arange 1)),
                  home_goal_expectation = exp (1 + 5 + - 1 + 1 / 2),
                  away_goal_expectation = exp (1 + 1 + - (1 / 2))\<rparr>"
    by (rule predict_fitted)
       (simp_all add: dict_setitem_def ex_h2_def ex_m2_def ex_m1_def ex_h1_def ex_params_def)
  have 6: "predict (dict_setitem ex_h2 0 ''home'' 5) ex_m2 ''A'' ''B'' 1 \<noteq>
           predict ex_h2 ex_m2 ''A'' ''B'' 1"
    unfolding 4 5 by simp
  from ex_fit 1 2 3 6 show ?thesis by simp
qed

text \<open>
  Claim C8, amended. On a fitted model \<^verbatim>\<open>get_params()\<close> returns the parameter
  dictionary itself, a live reference and not a copy: an assignment to a key of the returned
  mapping is an assignment to the stored parameters, and a later \<^verbatim>\<open>predict\<close> computes
  its rates from the changed values.
\<close>

theorem get_params_live_view:
  assumes "fit sample h m = (None, h2, m2)"
    and "Some a \<in> set (teams m2)" and "Some b \<in> set (teams m2)"
  shows "get_params h2 m2 = Inr (params m2) \<and>
         cells (dict_setitem h2 (params m2) key v) (params m2) = (cells h2 (params m2))(key \<mapsto> v) \<and>
         (\<exists>ic atta defb g.
            cells h2 (params m2) ''intercept'' = Some ic \<and>
            cells h2 (params m2) (''attack_'' @ a) = Some atta \<and>
            cells h2 (params m2) (''defence_'' @ b) = Some defb \<and>
            predict (dict_setitem h2 (params m2) ''home'' v) m2 a b k = Inr g \<and>
            home_goal_expectation g = exp (ic + v + atta + defb))"
proof -
  from fit_None_fields [OF assms(1)] have f: "fitted m2" and t: "teams m2 = teams m"
    by simp_all
  from assms(2,3) have a': "Some a \<in> set (teams m)" and b': "Some b \<in> set (teams m)"
    by (simp_all add: t)
  let ?h = "dict_setitem h2 (params m2) ''home'' v"
  have upd: "cells ?h (params m2) = (cells h2 (params m2))(''home'' \<mapsto> v)"
    by (simp add: dict_setitem_def)
  from fit_None_keys(2) [OF assms(1)] obtain ic where
    2: "cells h2 (params m2) ''intercept'' = Some ic" by blast
  from fit_None_keys(3) [OF assms(1) a'] obtain atta where
    3: "cells h2 (params m2) (''attack_'' @ a) = Some atta" by blast
  from fit_None_keys(3) [OF assms(1) b'] obtain attb where
    4: "cells h2 (params m2) (''attack_'' @ b) = Some attb" by blast
  from fit_None_keys(4) [OF assms(1) a'] obtain defa where
    5: "cells h2 (params m2) (''defence_'' @ a) = Some defa" by blast
  from fit_None_keys(4) [OF assms(1) b'] obtain defb where
    6: "cells h2 (params m2) (''defence_'' @ b) = Some defb" by blast
  have p: "predict ?h m2 a b k =
     Inr \<lparr>grid = np_outer (map (poisson_pmf (exp (ic + v + atta + defb))) (np_arange k))
                           (map (poisson_pmf (exp (ic + attb + defa))) (np_arange k)),
          home_goal_expectation = exp (ic + v + atta + defb),
          away_goal_expectation = exp (ic + attb + defa)\<rparr>"
    by (rule predict_fitted [OF f assms(2,3)]) (use 2 3 4 5 6 in \<open>simp_all add: upd\<close>)
  have g: "get_params h2 m2 = Inr (params m2)"
    using f by (simp add: get_params_def)
  have u: "cells (dict_setitem h2 (params m2) key v) (params m2) = (cells h2 (params m2))(key \<mapsto> v)"
    by (simp add: dict_setitem_def)
  from g u 2 3 6 p show ?thesis by simp
qed

theorem get_params_live_view_witness:
  "get_params ex_h2 ex_m2 = Inr (params ex_m2) \<and>
         cells (dict_setitem ex_h2 (params ex_m2) ''home'' 5) (params ex_m2) =
           (cells ex_h2 (params ex_m2))(''home'' \<mapsto> 5) \<and>
         (\<exists>ic atta defb g.
            cells ex_h2 (params ex_m2) ''intercept'' = Some ic \<and>
            cells ex_h2 (params ex_m2) (''attack_'' @ ''A'') = Some atta \<and>
            cells ex_h2 (params ex_m2) (''defence_'' @ ''B'') = Some defb \<and>
            predict (dict_setitem ex_h2 (params ex_m2) ''home'' 5) ex_m2 ''A'' ''B'' 1 = Inr g \<and>
            home_goal_expectation g = exp (ic + 5 + atta + defb))"
  by (rule get_params_live_view [OF ex_fit ex_known])

subsection \<open>C3: validation in the constructor\<close>




subsection \<open>C2: the keys and values of the parameter dictionary\<close>

text \<open>
  Claim C2, as stated, fails: the home advantage is not stored under
  \<^verbatim>\<open>"home_advantage"\<close>. On the league of A and B, after construction and
  \<^verbatim>\<open>fit\<close>, the mapping that \<^verbatim>\<open>get_params\<close> returns has no key
  \<^verbatim>\<open>"home_advantage"\<close>; the estimate is under \<^verbatim>\<open>"home"\<close>.
\<close>

theorem get_params_keys_counterexample:
  "init (Some 4) empty_heap [Num 1, Num 2] [Num 0, Num 2] [''B'', ''A''] [''A'', ''B'']
     (Scalar 1) None 200 = Inr (ex_h1, ex_m1) \<and>
   fit ex_sample ex_h1 ex_m1 = (None, ex_h2, ex_m2) \<and>
   get_params ex_h2 ex_m2 = Inr 0 \<and>
   cells ex_h2 0 ''home_advantage'' = None \<and>
   cells ex_h2 0 ''home'' = Some (1 / 2)"
proof -
  have "get_params ex_h2 ex_m2 = Inr 0"
    by (simp add: get_params_def ex_m2_def ex_m1_def)
  moreover have "cells ex_h2 0 ''home_advantage'' = None" "cells ex_h2 0 ''home'' = Some (1 / 2)"
    by (simp_all add: ex_h2_def ex_h1_def ex_params_def)
  ultimately show ?thesis using ex_init ex_fit by simp
qed

text \<open>
  Claim C2, amended. For a model fitted on a dataset whose home-team column holds the team
  names \<open>T\<close>, \<^verbatim>\<open>get_params()\<close> returns a mapping whose key set is exactly the literal
  strings \<^verbatim>\<open>"home"\<close> and \<^verbatim>\<open>"intercept"\<close> together with
  \<^verbatim>\<open>attack_<team_name>\<close> and \<^verbatim>\<open>defence_<team_name>\<close> for each team name in \<open>T\<close>;
  each value is the arithmetic mean of the samples of that latent variable in the trace (for
  a team, of the component at the team's index in the centred vectors).
\<close>

theorem get_params_keys:
  assumes "init cpu h gh ga th ta w jobs d = Inr (h1, m1)"
    and "sample (fixtures m1) (n_teams m1) (draws m1) (n_jobs m1) = Inr tr"
    and "fit sample h1 m1 = (None, h2, m2)"
    and "tr_home tr \<noteq> []" and "tr_intercept tr \<noteq> []"
    and "tr_atts_star tr \<noteq> []" and "tr_def_star tr \<noteq> []"
  shows "\<exists>r. get_params h2 m2 = Inr r \<and>
           dom (cells h2 r) =
             {''home'', ''intercept''} \<union> (\<lambda>t. ''attack_'' @ t) ` set th
                                       \<union> (\<lambda>t. ''defence_'' @ t) ` set th \<and>
           cells h2 r ''home'' = Some (sum_list (tr_home tr) / real (length (tr_home tr))) \<and>
           cells h2 r ''intercept'' =
             Some (sum_list (tr_intercept tr) / real (length (tr_intercept tr))) \<and>
           (\<forall>t\<in>set th. \<exists>i<length (teams m2). teams m2 ! i = Some t \<and>
              cells h2 r (''attack_'' @ t) =
                Some (sum_list (map (\<lambda>x. x ! i) (trace_atts tr)) / real (length (trace_atts tr))) \<and>
              cells h2 r (''defence_'' @ t) =
                Some (sum_list (map (\<lambda>x. x ! i) (trace_defs tr)) / real (length (trace_defs tr))))"
proof -
  from fitted_store [OF assms(1,3)] assms(2) have f: "fitted m2" and t: "teams m2 = teams m1"
    and ft: "fit_teams tr (enumerate 0 (teams m1))
             [''home'' \<mapsto> np_mean (tr_home tr), ''intercept'' \<mapsto> np_mean (tr_intercept tr)]
             = (None, cells h2 (params m2))"
    by auto
  note tm = init_fit_teams [OF assms(1,3)]
  have g: "get_params h2 m2 = Inr (params m2)"
    using f by (simp add: get_params_def)
  have dom: "dom (cells h2 (params m2)) =
             {''home'', ''intercept''} \<union> (\<lambda>t. ''attack_'' @ t) ` set th
                                       \<union> (\<lambda>t. ''defence_'' @ t) ` set th"
    unfolding fit_teams_dom [OF ft] snd_enumerate tm(1) key_sets by auto
  have home: "cells h2 (params m2) ''home'' = Some (np_mean (tr_home tr))"
    using fit_teams_other [OF ft, of "''home''"] by simp
  have ic: "cells h2 (params m2) ''intercept'' = Some (np_mean (tr_intercept tr))"
    using fit_teams_other [OF ft, of "''intercept''"] by simp
  have teams: "\<exists>i<length (teams m2). teams m2 ! i = Some t \<and>
              cells h2 (params m2) (''attack_'' @ t) =
                Some (np_mean (map (\<lambda>x. x ! i) (trace_atts tr))) \<and>
              cells h2 (params m2) (''defence_'' @ t) =
                Some (np_mean (map (\<lambda>x. x ! i) (trace_defs tr)))" if "t \<in> set th" for t
  proof -
    from that have "Some t \<in> set (teams m1)" by (simp add: tm(1))
    then obtain i where i: "i < length (teams m1)" "teams m1 ! i = Some t"
      by (auto simp: in_set_conv_nth)
    from stored_means [OF ft tm(2) i(1)] i show ?thesis
      unfolding t by auto
  qed
  from g dom home ic teams show ?thesis
    by (simp add: np_mean_def del: append.simps)
qed

theorem get_params_keys_witness:
  "\<exists>r. get_params ex_h2 ex_m2 = Inr r \<and>
           dom (cells ex_h2 r) =
             {''home'', ''intercept''} \<union> (\<lambda>t. ''attack_'' @ t) ` set [''B'', ''A'']
                                       \<union> (\<lambda>t. ''defence_'' @ t) ` set [''B'', ''A''] \<and>
           cells ex_h2 r ''home'' =
             Some (sum_list (tr_home ex_trace) / real (length (tr_home ex_trace))) \<and>
           cells ex_h2 r ''intercept'' =
             Some (sum_list (tr_intercept ex_trace) / real (length (tr_intercept ex_trace))) \<and>
           (\<forall>t\<in>set [''B'', ''A'']. \<exists>i<length (teams ex_m2). teams ex_m2 ! i = Some t \<and>
              cells ex_h2 r (''attack_'' @ t) =
                Some (sum_list (map (\<lambda>x. x ! i) (trace_atts ex_trace)) /
                      real (length (trace_atts ex_trace))) \<and>
              cells ex_h2 r (''defence_'' @ t) =
                Some (sum_list (map (\<lambda>x. x ! i) (trace_defs ex_trace)) /
                      real (length (trace_defs ex_trace))))"
  by (rule get_params_keys [OF ex_init ex_sampled ex_fit ex_trace_nonempty])

subsection \<open>C6: the stored attack and defence parameters are centred\<close>

text \<open>
  Claim C6. For a fitted model with at least one team, whose trace holds at least one draw
  and vectors of length \<^verbatim>\<open>n_teams\<close> (the shape the model declares), the mean over all
  teams of the stored attack parameters is 0 and so is the mean of the stored defence
  parameters, because every draw was centred before the means were taken. (Over the reals
  the means are exactly 0, hence within any tolerance.)
\<close>

theorem centering_invariant:
  assumes "init cpu h gh ga th ta w jobs d = Inr (h1, m1)"
    and "sample (fixtures m1) (n_teams m1) (draws m1) (n_jobs m1) = Inr tr"
    and "fit sample h1 m1 = (None, h2, m2)"
    and "th \<noteq> []"
    and "tr_atts_star tr \<noteq> []" and "tr_def_star tr \<noteq> []"
    and "\<forall>x\<in>set (tr_atts_star tr). length x = n_teams m1"
    and "\<forall>x\<in>set (tr_def_star tr). length x = n_teams m1"
  shows "\<exists>names atts defs.
           teams m2 = map Some names \<and> names \<noteq> [] \<and>
           map (cells h2 (params m2)) (map (\<lambda>t. ''attack_'' @ t) names) = map Some atts \<and>
           map (cells h2 (params m2)) (map (\<lambda>t. ''defence_'' @ t) names) = map Some defs \<and>
           sum_list atts / real (length atts) = 0 \<and>
           sum_list defs / real (length defs) = 0"
proof -
  from fitted_store [OF assms(1,3)] assms(2) have t: "teams m2 = teams m1"
    and ft: "fit_teams tr (enumerate 0 (teams m1))
             [''home'' \<mapsto> np_mean (tr_home tr), ''intercept'' \<mapsto> np_mean (tr_intercept tr)]
             = (None, cells h2 (params m2))"
    by auto
  note tm = init_fit_teams [OF assms(1,3)]
  define n where "n = n_teams m1"
  define names where "names = map the (teams m1)"
  define atts where "atts = map (\<lambda>i. np_mean (map (\<lambda>x. x ! i) (trace_atts tr))) [0..<n]"
  define defs where "defs = map (\<lambda>i. np_mean (map (\<lambda>x. x ! i) (trace_defs tr))) [0..<n]"
  have len: "length (teams m1) = n" by (simp add: tm(3) n_def)
  have npos: "0 < n"
  proof -
    from assms(4) have "set (teams m1) \<noteq> {}" by (simp add: tm(1))
    then show ?thesis unfolding len [symmetric] by simp
  qed
  have nth: "teams m1 ! i = Some (names ! i) \<and>
        cells h2 (params m2) (''attack_'' @ names ! i) = Some (atts ! i) \<and>
        cells h2 (params m2) (''defence_'' @ names ! i) = Some (defs ! i)" if "i < n" for i
  proof -
    from that have i: "i < length (teams m1)" by (simp add: len)
    from stored_means [OF ft tm(2) i] obtain u where u: "teams m1 ! i = Some u"
      and ua: "cells h2 (params m2) (''attack_'' @ u) =
                 Some (np_mean (map (\<lambda>x. x ! i) (trace_atts tr)))"
      and ud: "cells h2 (params m2) (''defence_'' @ u) =
                 Some (np_mean (map (\<lambda>x. x ! i) (trace_defs tr)))"
      by blast
    have ni: "names ! i = u" unfolding names_def using i u by simp
    have ai: "atts ! i = np_mean (map (\<lambda>x. x ! i) (trace_atts tr))"
      unfolding atts_def using that by simp
    have di: "defs ! i = np_mean (map (\<lambda>x. x ! i) (trace_defs tr))"
      unfolding defs_def using that by simp
    show ?thesis unfolding ni ai di using u ua ud by blast
  qed
  have ln: "length names = n" and la: "length atts = n" and ld: "length defs = n"
    by (simp_all add: names_def atts_def defs_def len)
  have 1: "teams m2 = map Some names"
    unfolding t by (rule nth_equalityI) (simp_all add: ln len nth)
  have 2: "names \<noteq> []" using npos ln by auto
  have 3: "map (cells h2 (params m2)) (map (\<lambda>t. ''attack_'' @ t) names) = map Some atts"
    by (rule nth_equalityI) (simp_all add: ln la nth del: append.simps)
  have 4: "map (cells h2 (params m2)) (map (\<lambda>t. ''defence_'' @ t) names) = map Some defs"
    by (rule nth_equalityI) (simp_all add: ln ld nth del: append.simps)
  have cz: "length (center x) = n \<and> sum_list (center x) = 0" if "length x = n" for x
  proof -
    from that npos have "x \<noteq> []" by auto
    with that show ?thesis by (simp add: length_center sum_list_center)
  qed
  have ca: "\<forall>x\<in>set (trace_atts tr). length x = n \<and> sum_list x = 0"
    using assms(7) cz by (auto simp: trace_atts_def n_def)
  have cd: "\<forall>x\<in>set (trace_defs tr). length x = n \<and> sum_list x = 0"
    using assms(8) cz by (auto simp: trace_defs_def n_def)
  have 5: "sum_list atts / real (length atts) = 0"
    using column_means_sum [OF ca] by (simp add: atts_def)
  have 6: "sum_list defs / real (length defs) = 0"
    using column_means_sum [OF cd] by (simp add: defs_def)
  from 1 2 3 4 5 6 show ?thesis by blast
qed

theorem centering_invariant_witness:
  "\<exists>names atts defs.
           teams ex_m2 = map Some names \<and> names \<noteq> [] \<and>
           map (cells ex_h2 (params ex_m2)) (map (\<lambda>t. ''attack_'' @ t) names) = map Some atts \<and>
           map (cells ex_h2 (params ex_m2)) (map (\<lambda>t. ''defence_'' @ t) names) = map Some defs \<and>
           sum_list atts / real (length atts) = 0 \<and>
           sum_list defs / real (length defs) = 0"
proof -
  have th: "[''B'', ''A''] \<noteq> []" by simp
  have sa: "\<forall>x\<in>set (tr_atts_star ex_trace). length x = n_teams ex_m1"
    and sd: "\<forall>x\<in>set (tr_def_star ex_trace). length x = n_teams ex_m1"
    by (simp_all add: ex_trace_def ex_m1_def)
  show ?thesis
    by (rule centering_invariant
        [OF ex_init ex_sampled ex_fit th ex_trace_nonempty(3,4) sa sd])
qed

end
